theory Spec2Isabelle
  imports Complex_Main
begin

section \<open>Data model\<close>

text \<open>
  JavaScript numbers are modelled as real numbers: the arithmetic of the source
  (negation and a multiplication by a decimal constant in \<^verbatim>\<open>faces.js\<close>, sums and products
  of quaternion components in the mesh) is read exactly, without the rounding of IEEE
  doubles, and \<^verbatim>\<open>Math.PI\<close> is \<open>\<pi>\<close>.

  A vector is the object literal \<^verbatim>\<open>{ x: .., y: .., z: .. }\<close> of \<^verbatim>\<open>faces.js\<close>; the
  fields are called \<open>vx\<close>, \<open>vy\<close>, \<open>vz\<close> here so that \<open>x\<close>, \<open>y\<close>, \<open>z\<close> stay free
  for variables.
\<close>

record Vec3 =
  vx :: real
  vy :: real
  vz :: real

text \<open>The object literal \<^verbatim>\<open>{ up: .., lookAt: .., position: .. }\<close> (the \<^verbatim>\<open>FaceConfig\<close> of
  \<^verbatim>\<open>index.d.ts\<close>).\<close>

record FaceConfig =
  up :: Vec3
  lookAt :: Vec3
  position :: Vec3

text \<open>The object returned by \<^verbatim>\<open>getFaceConfigs\<close>: its keys are the numbers of \<^verbatim>\<open>FACES\<close>.
  A key that is absent (\<^verbatim>\<open>undefined\<close> on lookup) is \<open>None\<close>.\<close>

type_synonym FaceConfigs = "nat \<rightharpoonup> FaceConfig"

definition vec :: "real \<Rightarrow> real \<Rightarrow> real \<Rightarrow> Vec3" where
  "vec a b c = \<lparr>vx = a, vy = b, vz = c\<rparr>"

subsection \<open>The constant \<^verbatim>\<open>FACES\<close>\<close>

definition FACES_TOP :: nat where "FACES_TOP = 1"
definition FACES_FRONT :: nat where "FACES_FRONT = 2"
definition FACES_RIGHT :: nat where "FACES_RIGHT = 3"
definition FACES_BACK :: nat where "FACES_BACK = 4"
definition FACES_LEFT :: nat where "FACES_LEFT = 5"
definition FACES_BOTTOM :: nat where "FACES_BOTTOM = 6"

definition FACES_TOP_FRONT_EDGE :: nat where "FACES_TOP_FRONT_EDGE = 7"
definition FACES_TOP_RIGHT_EDGE :: nat where "FACES_TOP_RIGHT_EDGE = 8"
definition FACES_TOP_BACK_EDGE :: nat where "FACES_TOP_BACK_EDGE = 9"
definition FACES_TOP_LEFT_EDGE :: nat where "FACES_TOP_LEFT_EDGE = 10"

definition FACES_FRONT_RIGHT_EDGE :: nat where "FACES_FRONT_RIGHT_EDGE = 11"
definition FACES_BACK_RIGHT_EDGE :: nat where "FACES_BACK_RIGHT_EDGE = 12"
definition FACES_BACK_LEFT_EDGE :: nat where "FACES_BACK_LEFT_EDGE = 13"
definition FACES_FRONT_LEFT_EDGE :: nat where "FACES_FRONT_LEFT_EDGE = 14"

definition FACES_BOTTOM_FRONT_EDGE :: nat where "FACES_BOTTOM_FRONT_EDGE = 15"
definition FACES_BOTTOM_RIGHT_EDGE :: nat where "FACES_BOTTOM_RIGHT_EDGE = 16"
definition FACES_BOTTOM_BACK_EDGE :: nat where "FACES_BOTTOM_BACK_EDGE = 17"
definition FACES_BOTTOM_LEFT_EDGE :: nat where "FACES_BOTTOM_LEFT_EDGE = 18"

definition FACES_TOP_FRONT_RIGHT_CORNER :: nat where "FACES_TOP_FRONT_RIGHT_CORNER = 19"
definition FACES_TOP_BACK_RIGHT_CORNER :: nat where "FACES_TOP_BACK_RIGHT_CORNER = 20"
definition FACES_TOP_BACK_LEFT_CORNER :: nat where "FACES_TOP_BACK_LEFT_CORNER = 21"
definition FACES_TOP_FRONT_LEFT_CORNER :: nat where "FACES_TOP_FRONT_LEFT_CORNER = 22"

definition FACES_BOTTOM_FRONT_RIGHT_CORNER :: nat where "FACES_BOTTOM_FRONT_RIGHT_CORNER = 23"
definition FACES_BOTTOM_BACK_RIGHT_CORNER :: nat where "FACES_BOTTOM_BACK_RIGHT_CORNER = 24"
definition FACES_BOTTOM_BACK_LEFT_CORNER :: nat where "FACES_BOTTOM_BACK_LEFT_CORNER = 25"
definition FACES_BOTTOM_FRONT_LEFT_CORNER :: nat where "FACES_BOTTOM_FRONT_LEFT_CORNER = 26"

section \<open>The table of camera configurations (\<^verbatim>\<open>faces.js\<close>)\<close>

text \<open>
  An object literal with computed keys is a chain of map updates (a later key would
  overwrite an earlier equal one), and the spread \<^verbatim>\<open>...obj\<close> inside a literal is \<open>++\<close>.
  The products \<open>d * 0.707\<close> and \<open>d * 0.577\<close> are exact here, where the source rounds each
  to the nearest double.
\<close>

definition getEdgeConfigs :: "string \<Rightarrow> real \<Rightarrow> FaceConfigs" where
  "getEdgeConfigs system d =
    (let e = d * 0.707 in
     if system = ''Z-up'' then
       [FACES_TOP_FRONT_EDGE \<mapsto> \<lparr>up = vec 0 0 1, lookAt = vec 0 1 0, position = vec 0 (- e) e\<rparr>,
        FACES_TOP_RIGHT_EDGE \<mapsto> \<lparr>up = vec 0 0 1, lookAt = vec 1 0 0, position = vec e 0 e\<rparr>,
        FACES_TOP_BACK_EDGE \<mapsto> \<lparr>up = vec 0 0 1, lookAt = vec 0 (- 1) 0, position = vec 0 e e\<rparr>,
        FACES_TOP_LEFT_EDGE \<mapsto> \<lparr>up = vec 0 0 1, lookAt = vec (- 1) 0 0, position = vec (- e) 0 e\<rparr>,
        FACES_FRONT_RIGHT_EDGE \<mapsto> \<lparr>up = vec 0 0 1, lookAt = vec 0 0 0, position = vec e (- e) 0\<rparr>,
        FACES_BACK_RIGHT_EDGE \<mapsto> \<lparr>up = vec 0 0 1, lookAt = vec 0 0 0, position = vec e e 0\<rparr>,
        FACES_BACK_LEFT_EDGE \<mapsto> \<lparr>up = vec 0 0 1, lookAt = vec 0 0 0, position = vec (- e) e 0\<rparr>,
        FACES_FRONT_LEFT_EDGE \<mapsto> \<lparr>up = vec 0 0 1, lookAt = vec 0 0 0, position = vec (- e) (- e) 0\<rparr>,
        FACES_BOTTOM_FRONT_EDGE \<mapsto> \<lparr>up = vec 0 0 1, lookAt = vec 0 1 0, position = vec 0 (- e) (- e)\<rparr>,
        FACES_BOTTOM_RIGHT_EDGE \<mapsto> \<lparr>up = vec 0 0 1, lookAt = vec 1 0 0, position = vec e 0 (- e)\<rparr>,
        FACES_BOTTOM_BACK_EDGE \<mapsto> \<lparr>up = vec 0 0 1, lookAt = vec 0 (- 1) 0, position = vec 0 e (- e)\<rparr>,
        FACES_BOTTOM_LEFT_EDGE \<mapsto> \<lparr>up = vec 0 0 1, lookAt = vec (- 1) 0 0, position = vec (- e) 0 (- e)\<rparr>]
     else
       [FACES_TOP_FRONT_EDGE \<mapsto> \<lparr>up = vec 0 1 0, lookAt = vec 0 0 0, position = vec 0 e e\<rparr>,
        FACES_TOP_RIGHT_EDGE \<mapsto> \<lparr>up = vec 0 1 0, lookAt = vec 0 0 0, position = vec e e 0\<rparr>,
        FACES_TOP_BACK_EDGE \<mapsto> \<lparr>up = vec 0 1 0, lookAt = vec 0 0 0, position = vec 0 e (- e)\<rparr>,
        FACES_TOP_LEFT_EDGE \<mapsto> \<lparr>up = vec 0 1 0, lookAt = vec 0 0 0, position = vec (- e) e 0\<rparr>,
        FACES_FRONT_RIGHT_EDGE \<mapsto> \<lparr>up = vec 0 1 0, lookAt = vec 0 0 0, position = vec e 0 e\<rparr>,
        FACES_BACK_RIGHT_EDGE \<mapsto> \<lparr>up = vec 0 1 0, lookAt = vec 0 0 0, position = vec e 0 (- e)\<rparr>,
        FACES_BACK_LEFT_EDGE \<mapsto> \<lparr>up = vec 0 1 0, lookAt = vec 0 0 0, position = vec (- e) 0 (- e)\<rparr>,
        FACES_FRONT_LEFT_EDGE \<mapsto> \<lparr>up = vec 0 1 0, lookAt = vec 0 0 0, position = vec (- e) 0 e\<rparr>,
        FACES_BOTTOM_FRONT_EDGE \<mapsto> \<lparr>up = vec 0 1 0, lookAt = vec 0 0 0, position = vec 0 (- e) e\<rparr>,
        FACES_BOTTOM_RIGHT_EDGE \<mapsto> \<lparr>up = vec 0 1 0, lookAt = vec 0 0 0, position = vec e (- e) 0\<rparr>,
        FACES_BOTTOM_BACK_EDGE \<mapsto> \<lparr>up = vec 0 1 0, lookAt = vec 0 0 0, position = vec 0 (- e) (- e)\<rparr>,
        FACES_BOTTOM_LEFT_EDGE \<mapsto> \<lparr>up = vec 0 1 0, lookAt = vec 0 0 0, position = vec (- e) (- e) 0\<rparr>])"

definition getCornerConfigs :: "string \<Rightarrow> real \<Rightarrow> FaceConfigs" where
  "getCornerConfigs system d =
    (let c = d * 0.577;
         up' = (if system = ''Z-up'' then vec 0 0 1 else vec 0 1 0) in
     if system = ''Z-up'' then
       [FACES_TOP_FRONT_RIGHT_CORNER \<mapsto> \<lparr>up = up', lookAt = vec 0 0 0, position = vec c (- c) c\<rparr>,
        FACES_TOP_BACK_RIGHT_CORNER \<mapsto> \<lparr>up = up', lookAt = vec 0 0 0, position = vec c c c\<rparr>,
        FACES_TOP_BACK_LEFT_CORNER \<mapsto> \<lparr>up = up', lookAt = vec 0 0 0, position = vec (- c) c c\<rparr>,
        FACES_TOP_FRONT_LEFT_CORNER \<mapsto> \<lparr>up = up', lookAt = vec 0 0 0, position = vec (- c) (- c) c\<rparr>,
        FACES_BOTTOM_FRONT_RIGHT_CORNER \<mapsto> \<lparr>up = up', lookAt = vec 0 0 0, position = vec c (- c) (- c)\<rparr>,
        FACES_BOTTOM_BACK_RIGHT_CORNER \<mapsto> \<lparr>up = up', lookAt = vec 0 0 0, position = vec c c (- c)\<rparr>,
        FACES_BOTTOM_BACK_LEFT_CORNER \<mapsto> \<lparr>up = up', lookAt = vec 0 0 0, position = vec (- c) c (- c)\<rparr>,
        FACES_BOTTOM_FRONT_LEFT_CORNER \<mapsto> \<lparr>up = up', lookAt = vec 0 0 0, position = vec (- c) (- c) (- c)\<rparr>]
     else
       [FACES_TOP_FRONT_RIGHT_CORNER \<mapsto> \<lparr>up = up', lookAt = vec 0 0 0, position = vec c c c\<rparr>,
        FACES_TOP_BACK_RIGHT_CORNER \<mapsto> \<lparr>up = up', lookAt = vec 0 0 0, position = vec c c (- c)\<rparr>,
        FACES_TOP_BACK_LEFT_CORNER \<mapsto> \<lparr>up = up', lookAt = vec 0 0 0, position = vec (- c) c (- c)\<rparr>,
        FACES_TOP_FRONT_LEFT_CORNER \<mapsto> \<lparr>up = up', lookAt = vec 0 0 0, position = vec (- c) c c\<rparr>,
        FACES_BOTTOM_FRONT_RIGHT_CORNER \<mapsto> \<lparr>up = up', lookAt = vec 0 0 0, position = vec c (- c) c\<rparr>,
        FACES_BOTTOM_BACK_RIGHT_CORNER \<mapsto> \<lparr>up = up', lookAt = vec 0 0 0, position = vec c (- c) (- c)\<rparr>,
        FACES_BOTTOM_BACK_LEFT_CORNER \<mapsto> \<lparr>up = up', lookAt = vec 0 0 0, position = vec (- c) (- c) (- c)\<rparr>,
        FACES_BOTTOM_FRONT_LEFT_CORNER \<mapsto> \<lparr>up = up', lookAt = vec 0 0 0, position = vec (- c) (- c) c\<rparr>])"

definition getZUpFaceConfigs :: "real \<Rightarrow> FaceConfigs" where
  "getZUpFaceConfigs d =
     [FACES_TOP \<mapsto> \<lparr>up = vec 0 1 0, lookAt = vec 0 0 (- 1), position = vec 0 0 d\<rparr>,
      FACES_FRONT \<mapsto> \<lparr>up = vec 0 0 1, lookAt = vec 0 1 0, position = vec 0 (- d) 0\<rparr>,
      FACES_RIGHT \<mapsto> \<lparr>up = vec 0 0 1, lookAt = vec 1 0 0, position = vec d 0 0\<rparr>,
      FACES_BACK \<mapsto> \<lparr>up = vec 0 0 1, lookAt = vec 0 (- 1) 0, position = vec 0 d 0\<rparr>,
      FACES_LEFT \<mapsto> \<lparr>up = vec 0 0 1, lookAt = vec (- 1) 0 0, position = vec (- d) 0 0\<rparr>,
      FACES_BOTTOM \<mapsto> \<lparr>up = vec 0 (- 1) 0, lookAt = vec 0 0 1, position = vec 0 0 (- d)\<rparr>]
     ++ getEdgeConfigs ''Z-up'' d
     ++ getCornerConfigs ''Z-up'' d"

definition getYUpFaceConfigs :: "real \<Rightarrow> FaceConfigs" where
  "getYUpFaceConfigs d =
     [FACES_TOP \<mapsto> \<lparr>up = vec 0 0 (- 1), lookAt = vec 0 (- 1) 0, position = vec 0 d 0\<rparr>,
      FACES_FRONT \<mapsto> \<lparr>up = vec 0 1 0, lookAt = vec 0 0 (- 1), position = vec 0 0 d\<rparr>,
      FACES_RIGHT \<mapsto> \<lparr>up = vec 0 1 0, lookAt = vec (- 1) 0 0, position = vec d 0 0\<rparr>,
      FACES_BACK \<mapsto> \<lparr>up = vec 0 1 0, lookAt = vec 0 0 1, position = vec 0 0 (- d)\<rparr>,
      FACES_LEFT \<mapsto> \<lparr>up = vec 0 1 0, lookAt = vec 1 0 0, position = vec (- d) 0 0\<rparr>,
      FACES_BOTTOM \<mapsto> \<lparr>up = vec 0 0 1, lookAt = vec 0 1 0, position = vec 0 (- d) 0\<rparr>]
     ++ getEdgeConfigs ''Y-up'' d
     ++ getCornerConfigs ''Y-up'' d"

text \<open>
  \<^verbatim>\<open>getFaceConfigs(coordinateSystem = 'Z-up', distance = 100)\<close>. An argument is \<open>None\<close>
  when it is omitted or \<^verbatim>\<open>undefined\<close>, the only case in which JavaScript takes the
  default of a parameter; \<open>Some s\<close> is the string \<open>s\<close>, which the source compares with
  \<^verbatim>\<open>=== 'Z-up'\<close>.
\<close>

definition getFaceConfigs :: "string option \<Rightarrow> real option \<Rightarrow> FaceConfigs" where
  "getFaceConfigs coordinateSystem distance =
    (let coordinateSystem' = (case coordinateSystem of None \<Rightarrow> ''Z-up'' | Some s \<Rightarrow> s);
         distance' = (case distance of None \<Rightarrow> 100 | Some v \<Rightarrow> v) in
     if coordinateSystem' = ''Z-up'' then getZUpFaceConfigs distance'
     else getYUpFaceConfigs distance')"

section \<open>The constructor of \<^verbatim>\<open>ViewCube\<close> (\<^verbatim>\<open>ViewCube.js\<close>)\<close>

text \<open>
  \<^verbatim>\<open>throw new Error(message)\<close> is the left injection of a sum: a call that completes
  normally is \<open>Inr\<close> of what it returns.
\<close>

datatype js_error = Error string

text \<open>The DOM element passed as \<^verbatim>\<open>container\<close> is an opaque handle.\<close>

type_synonym HTMLElement = nat

text \<open>
  The argument of the constructor, the \<^verbatim>\<open>ViewCubeOptions\<close> of \<^verbatim>\<open>index.d.ts\<close>. A property
  that is absent reads as \<^verbatim>\<open>undefined\<close>, here \<open>None\<close>; the constructor's own default
  \<^verbatim>\<open>options = {}\<close> is the record with every field \<open>None\<close>. The properties that only
  style the overlay (size, position, colours, labels, font, the \<^verbatim>\<open>show...\<close> flags) do not
  reach the table of configurations and are left out, as are the renderer, the scene and
  the DOM nodes that \<^verbatim>\<open>_init\<close> creates.
\<close>

record ViewCubeOptions =
  container :: "HTMLElement option"
  coordinateSystem :: "string option"
  cameraDistance :: "real option"

text \<open>\<^verbatim>\<open>this._options\<close>, with the defaults applied.\<close>

record ViewCube_options =
  options_container :: "HTMLElement option"
  options_coordinateSystem :: string
  options_cameraDistance :: real

record ViewCube =
  this_options :: ViewCube_options
  this_faceConfigs :: FaceConfigs

text \<open>
  \<^verbatim>\<open>v || dflt\<close> yields \<^verbatim>\<open>dflt\<close> when \<^verbatim>\<open>v\<close> is falsy: \<^verbatim>\<open>undefined\<close>, the empty string,
  or the number zero (a real number is never \<^verbatim>\<open>NaN\<close>).
\<close>

definition js_or_string :: "string option \<Rightarrow> string \<Rightarrow> string" where
  "js_or_string v dflt = (case v of None \<Rightarrow> dflt | Some s \<Rightarrow> if s = [] then dflt else s)"

definition js_or_number :: "real option \<Rightarrow> real \<Rightarrow> real" where
  "js_or_number v dflt = (case v of None \<Rightarrow> dflt | Some n \<Rightarrow> if n = 0 then dflt else n)"

definition ViewCube_init :: "ViewCube_options \<Rightarrow> js_error + ViewCube" where
  "ViewCube_init opts =
    (if options_container opts = None then
       Inl (Error ''ViewCube: container element is required'')
     else
       Inr \<lparr>this_options = opts,
            this_faceConfigs =
              getFaceConfigs (Some (options_coordinateSystem opts))
                             (Some (options_cameraDistance opts))\<rparr>)"

definition ViewCube_constructor :: "ViewCubeOptions \<Rightarrow> js_error + ViewCube" where
  "ViewCube_constructor opts =
     ViewCube_init
       \<lparr>options_container = container opts,
        options_coordinateSystem = js_or_string (coordinateSystem opts) ''Z-up'',
        options_cameraDistance = js_or_number (cameraDistance opts) 100\<rparr>"

text \<open>
  What a caller of \<^verbatim>\<open>getFaceConfigs\<close> observes. The function and the four it calls consist
  of a string comparison, two multiplications and object literals; none of them contains
  \<^verbatim>\<open>throw\<close> or an operation that can raise, so every call completes normally.
\<close>

definition call_getFaceConfigs :: "string option \<Rightarrow> real option \<Rightarrow> js_error + FaceConfigs" where
  "call_getFaceConfigs cs distance = Inr (getFaceConfigs cs distance)"

section \<open>The rotation of the cube (\<^verbatim>\<open>ViewCubeMesh.setQuaternion\<close>)\<close>

text \<open>
  \<^verbatim>\<open>THREE.Quaternion\<close> belongs to the three.js library, which the mesh imports. Its four
  operations used by \<^verbatim>\<open>setQuaternion\<close> are written out as the library computes them:
  the constructor gives \<open>(0, 0, 0, 1)\<close>, \<^verbatim>\<open>invert\<close> is the conjugate,
  \<^verbatim>\<open>setFromAxisAngle\<close> takes half the angle, and \<^verbatim>\<open>multiplyQuaternions\<close> is the
  Hamilton product.
\<close>

record Quaternion =
  qx :: real
  qy :: real
  qz :: real
  qw :: real

definition quat :: "real \<Rightarrow> real \<Rightarrow> real \<Rightarrow> real \<Rightarrow> Quaternion" where
  "quat a b c d = \<lparr>qx = a, qy = b, qz = c, qw = d\<rparr>"

definition new_Quaternion :: Quaternion where
  "new_Quaternion = quat 0 0 0 1"

definition setFromAxisAngle :: "Vec3 \<Rightarrow> real \<Rightarrow> Quaternion" where
  "setFromAxisAngle axis angle =
    (let halfAngle = angle / 2; s = sin halfAngle in
     quat (vx axis * s) (vy axis * s) (vz axis * s) (cos halfAngle))"

definition invert :: "Quaternion \<Rightarrow> Quaternion" where
  "invert q = quat (qx q * (- 1)) (qy q * (- 1)) (qz q * (- 1)) (qw q)"

definition multiplyQuaternions :: "Quaternion \<Rightarrow> Quaternion \<Rightarrow> Quaternion" where
  "multiplyQuaternions a b =
    (let qax = qx a; qay = qy a; qaz = qz a; qaw = qw a;
         qbx = qx b; qby = qy b; qbz = qz b; qbw = qw b in
     quat (qax * qbw + qaw * qbx + qay * qbz - qaz * qby)
          (qay * qbw + qaw * qby + qaz * qbx - qax * qbz)
          (qaz * qbw + qaw * qbz + qax * qby - qay * qbx)
          (qaw * qbw - qax * qbx - qay * qby - qaz * qbz))"

text \<open>
  The mesh: \<^verbatim>\<open>this._options.coordinateSystem\<close> and the \<^verbatim>\<open>quaternion\<close> it inherits from
  \<^verbatim>\<open>THREE.Object3D\<close>, which \<^verbatim>\<open>setRotationFromQuaternion\<close> overwrites with a copy of its
  argument. The children of the mesh play no part in \<^verbatim>\<open>setQuaternion\<close>.
\<close>

record ViewCubeMesh =
  mesh_options_coordinateSystem :: string
  quaternion :: Quaternion

definition setRotationFromQuaternion :: "ViewCubeMesh \<Rightarrow> Quaternion \<Rightarrow> ViewCubeMesh" where
  "setRotationFromQuaternion this q = this\<lparr>quaternion := q\<rparr>"

definition setQuaternion :: "ViewCubeMesh \<Rightarrow> Quaternion \<Rightarrow> ViewCubeMesh" where
  "setQuaternion this quaternion' =
    (let coordinateSystem' = mesh_options_coordinateSystem this in
     if coordinateSystem' = ''Z-up'' then
       (let zUpToYUp = setFromAxisAngle (vec 1 0 0) (pi / 2);
            invertedQuat = invert quaternion';
            finalQuat = multiplyQuaternions invertedQuat zUpToYUp
        in setRotationFromQuaternion this finalQuat)
     else
       (let invertedQuat = invert quaternion'
        in setRotationFromQuaternion this invertedQuat))"

section \<open>Notions of the specification\<close>

text \<open>
  The properties below speak of norms, parallel vectors, cardinal directions, unit
  quaternions and the rotation by a quarter turn about the X axis. None of these is
  computed by the source; they are defined here from the specification's words.
\<close>

definition vec_sub :: "Vec3 \<Rightarrow> Vec3 \<Rightarrow> Vec3" where
  "vec_sub a b = vec (vx a - vx b) (vy a - vy b) (vz a - vz b)"

definition vec_scale :: "real \<Rightarrow> Vec3 \<Rightarrow> Vec3" where
  "vec_scale k a = vec (k * vx a) (k * vy a) (k * vz a)"

definition vec_cross :: "Vec3 \<Rightarrow> Vec3 \<Rightarrow> Vec3" where
  "vec_cross a b =
     vec (vy a * vz b - vz a * vy b) (vz a * vx b - vx a * vz b) (vx a * vy b - vy a * vx b)"

text \<open>The Euclidean norm.\<close>

definition vec_length :: "Vec3 \<Rightarrow> real" where
  "vec_length a = sqrt (vx a * vx a + vy a * vy a + vz a * vz a)"

text \<open>
  Two vectors are parallel when one of them is a scalar multiple of the other. The zero
  vector is parallel to every vector: a gaze \<open>lookAt - position\<close> of length zero fixes no
  direction to look in, whatever \<open>up\<close> is. The definition computes, by the cross product;
  lemma \<open>parallel_iff\<close> shows that it says the above.
\<close>

definition parallel :: "Vec3 \<Rightarrow> Vec3 \<Rightarrow> bool" where
  "parallel a b \<longleftrightarrow> vec_cross a b = vec 0 0 0"

text \<open>The invariant of a configuration: the position is not the origin, and \<open>up\<close> is not
  parallel to the gaze \<open>lookAt - position\<close>, so that looking at \<open>lookAt\<close> from \<open>position\<close>
  is defined.\<close>

definition nondegenerate :: "FaceConfig \<Rightarrow> bool" where
  "nondegenerate cfg \<longleftrightarrow>
     position cfg \<noteq> vec 0 0 0 \<and>
     \<not> parallel (up cfg) (vec_sub (lookAt cfg) (position cfg))"

text \<open>One of the six unit vectors along the axes.\<close>

definition is_cardinal :: "Vec3 \<Rightarrow> bool" where
  "is_cardinal v \<longleftrightarrow>
     v = vec 1 0 0 \<or> v = vec (- 1) 0 0 \<or> v = vec 0 1 0 \<or> v = vec 0 (- 1) 0 \<or>
     v = vec 0 0 1 \<or> v = vec 0 0 (- 1)"

definition top_bottom_edges :: "nat set" where
  "top_bottom_edges =
     {FACES_TOP_FRONT_EDGE, FACES_TOP_RIGHT_EDGE, FACES_TOP_BACK_EDGE, FACES_TOP_LEFT_EDGE,
      FACES_BOTTOM_FRONT_EDGE, FACES_BOTTOM_RIGHT_EDGE, FACES_BOTTOM_BACK_EDGE,
      FACES_BOTTOM_LEFT_EDGE}"

definition side_edges :: "nat set" where
  "side_edges =
     {FACES_FRONT_RIGHT_EDGE, FACES_BACK_RIGHT_EDGE, FACES_BACK_LEFT_EDGE,
      FACES_FRONT_LEFT_EDGE}"

text \<open>The norm of the position stored under a key, when the key is present.\<close>

definition position_length :: "FaceConfigs \<Rightarrow> nat \<Rightarrow> real option" where
  "position_length t i = map_option (\<lambda>cfg. vec_length (position cfg)) (t i)"

text \<open>\<open>a\<close> equals \<open>b\<close> within a relative tolerance of \<open>10\<^sup>-\<^sup>9\<close>.\<close>

definition within_rel_tol :: "real \<Rightarrow> real \<Rightarrow> bool" where
  "within_rel_tol a b \<longleftrightarrow> \<bar>a - b\<bar> \<le> \<bar>b\<bar> / 10 ^ 9"

text \<open>The values of \<^verbatim>\<open>FACES\<close>, in the order of the source.\<close>

definition FACES_values :: "nat list" where
  "FACES_values =
     [FACES_TOP, FACES_FRONT, FACES_RIGHT, FACES_BACK, FACES_LEFT, FACES_BOTTOM,
      FACES_TOP_FRONT_EDGE, FACES_TOP_RIGHT_EDGE, FACES_TOP_BACK_EDGE, FACES_TOP_LEFT_EDGE,
      FACES_FRONT_RIGHT_EDGE, FACES_BACK_RIGHT_EDGE, FACES_BACK_LEFT_EDGE,
      FACES_FRONT_LEFT_EDGE,
      FACES_BOTTOM_FRONT_EDGE, FACES_BOTTOM_RIGHT_EDGE, FACES_BOTTOM_BACK_EDGE,
      FACES_BOTTOM_LEFT_EDGE,
      FACES_TOP_FRONT_RIGHT_CORNER, FACES_TOP_BACK_RIGHT_CORNER, FACES_TOP_BACK_LEFT_CORNER,
      FACES_TOP_FRONT_LEFT_CORNER,
      FACES_BOTTOM_FRONT_RIGHT_CORNER, FACES_BOTTOM_BACK_RIGHT_CORNER,
      FACES_BOTTOM_BACK_LEFT_CORNER, FACES_BOTTOM_FRONT_LEFT_CORNER]"

definition is_unit :: "Quaternion \<Rightarrow> bool" where
  "is_unit q \<longleftrightarrow> qx q * qx q + qy q * qy q + qz q * qz q + qw q * qw q = 1"

text \<open>
  The unit quaternion of the rotation by +90 degrees about the X axis,
  \<open>(sin 45\<degree>, 0, 0, cos 45\<degree>)\<close>. Lemma \<open>rotX90_turns\<close> checks the name: it fixes the X
  axis, takes Y to Z and Z to -Y.
\<close>

definition rotX90 :: Quaternion where
  "rotX90 = quat (sqrt 2 / 2) 0 0 (sqrt 2 / 2)"

text \<open>The rotation of a vector by a unit quaternion, \<open>q v q\<^sup>-\<^sup>1\<close>.\<close>

definition applyQuaternion :: "Vec3 \<Rightarrow> Quaternion \<Rightarrow> Vec3" where
  "applyQuaternion v q =
    (let r = multiplyQuaternions (multiplyQuaternions q (quat (vx v) (vy v) (vz v) 0)) (invert q)
     in vec (qx r) (qy r) (qz r))"

section \<open>Auxiliary facts\<close>

lemmas FACES_defs =
  FACES_TOP_def FACES_FRONT_def FACES_RIGHT_def FACES_BACK_def FACES_LEFT_def
  FACES_BOTTOM_def
  FACES_TOP_FRONT_EDGE_def FACES_TOP_RIGHT_EDGE_def FACES_TOP_BACK_EDGE_def
  FACES_TOP_LEFT_EDGE_def
  FACES_FRONT_RIGHT_EDGE_def FACES_BACK_RIGHT_EDGE_def FACES_BACK_LEFT_EDGE_def
  FACES_FRONT_LEFT_EDGE_def
  FACES_BOTTOM_FRONT_EDGE_def FACES_BOTTOM_RIGHT_EDGE_def FACES_BOTTOM_BACK_EDGE_def
  FACES_BOTTOM_LEFT_EDGE_def
  FACES_TOP_FRONT_RIGHT_CORNER_def FACES_TOP_BACK_RIGHT_CORNER_def
  FACES_TOP_BACK_LEFT_CORNER_def FACES_TOP_FRONT_LEFT_CORNER_def
  FACES_BOTTOM_FRONT_RIGHT_CORNER_def FACES_BOTTOM_BACK_RIGHT_CORNER_def
  FACES_BOTTOM_BACK_LEFT_CORNER_def FACES_BOTTOM_FRONT_LEFT_CORNER_def

lemmas table_defs =
  getFaceConfigs_def getZUpFaceConfigs_def getYUpFaceConfigs_def getEdgeConfigs_def
  getCornerConfigs_def FACES_defs map_add_def Let_def

lemma vec_eq_iff: "vec a b c = vec a' b' c' \<longleftrightarrow> a = a' \<and> b = b' \<and> c = c'"
  by (simp add: vec_def)

lemma vec_sel [simp]: "vx (vec a b c) = a" "vy (vec a b c) = b" "vz (vec a b c) = c"
  by (simp_all add: vec_def)

lemma vec_surj: "v = vec (vx v) (vy v) (vz v)"
  by (simp add: vec_def)

lemma quat_sel [simp]:
  "qx (quat a b c d) = a" "qy (quat a b c d) = b" "qz (quat a b c d) = c"
  "qw (quat a b c d) = d"
  by (simp_all add: quat_def)

lemma quat_eq_iff:
  "quat a b c d = quat a' b' c' d' \<longleftrightarrow> a = a' \<and> b = b' \<and> c = c' \<and> d = d'"
  by (simp add: quat_def)

lemma quat_surj: "q = quat (qx q) (qy q) (qz q) (qw q)"
  by (simp add: quat_def)

lemmas geom_defs = nondegenerate_def parallel_def vec_cross_def vec_sub_def vec_eq_iff

subsection \<open>Parallel vectors\<close>

lemma parallel_iff:
  "parallel a b \<longleftrightarrow> (\<exists>k. a = vec_scale k b) \<or> (\<exists>k. b = vec_scale k a)"
proof
  assume h: "parallel a b"
  show "(\<exists>k. a = vec_scale k b) \<or> (\<exists>k. b = vec_scale k a)"
  proof (cases "b = vec 0 0 0")
    case True
    then have "b = vec_scale 0 a" by (simp add: vec_scale_def)
    then show ?thesis by blast
  next
    case False
    from h have c: "vy a * vz b = vz a * vy b" "vz a * vx b = vx a * vz b"
        "vx a * vy b = vy a * vx b"
      by (simp_all add: parallel_def vec_cross_def vec_eq_iff)
    from False have "vx b \<noteq> 0 \<or> vy b \<noteq> 0 \<or> vz b \<noteq> 0"
      by (metis vec_surj)
    then consider "vx b \<noteq> 0" | "vy b \<noteq> 0" | "vz b \<noteq> 0" by blast
    then have "\<exists>k. a = vec_scale k b"
    proof cases
      case 1
      have "a = vec_scale (vx a / vx b) b"
        using 1 c by (subst vec_surj [of a]) (simp add: vec_scale_def vec_eq_iff field_simps)
      then show ?thesis ..
    next
      case 2
      have "a = vec_scale (vy a / vy b) b"
        using 2 c by (subst vec_surj [of a]) (simp add: vec_scale_def vec_eq_iff field_simps)
      then show ?thesis ..
    next
      case 3
      have "a = vec_scale (vz a / vz b) b"
        using 3 c by (subst vec_surj [of a]) (simp add: vec_scale_def vec_eq_iff field_simps)
      then show ?thesis ..
    qed
    then show ?thesis ..
  qed
next
  assume "(\<exists>k. a = vec_scale k b) \<or> (\<exists>k. b = vec_scale k a)"
  then show "parallel a b"
    by (auto simp: parallel_def vec_scale_def vec_cross_def vec_eq_iff)
qed

subsection \<open>The keys\<close>

lemma face_cases:
  assumes "i \<in> {1..6}"
  shows
  "i = FACES_TOP \<or> i = FACES_FRONT \<or> i = FACES_RIGHT \<or> i = FACES_BACK \<or>
   i = FACES_LEFT \<or> i = FACES_BOTTOM"
  using assms by (simp only: FACES_defs atLeastAtMost_iff) arith

lemma edge_cases:
  assumes "i \<in> {7..18}"
  shows
  "i = FACES_TOP_FRONT_EDGE \<or> i = FACES_TOP_RIGHT_EDGE \<or>
   i = FACES_TOP_BACK_EDGE \<or> i = FACES_TOP_LEFT_EDGE \<or>
   i = FACES_FRONT_RIGHT_EDGE \<or> i = FACES_BACK_RIGHT_EDGE \<or>
   i = FACES_BACK_LEFT_EDGE \<or> i = FACES_FRONT_LEFT_EDGE \<or>
   i = FACES_BOTTOM_FRONT_EDGE \<or> i = FACES_BOTTOM_RIGHT_EDGE \<or>
   i = FACES_BOTTOM_BACK_EDGE \<or> i = FACES_BOTTOM_LEFT_EDGE"
  using assms by (simp only: FACES_defs atLeastAtMost_iff) arith

lemma corner_cases:
  assumes "i \<in> {19..26}"
  shows
  "i = FACES_TOP_FRONT_RIGHT_CORNER \<or> i = FACES_TOP_BACK_RIGHT_CORNER \<or>
   i = FACES_TOP_BACK_LEFT_CORNER \<or> i = FACES_TOP_FRONT_LEFT_CORNER \<or>
   i = FACES_BOTTOM_FRONT_RIGHT_CORNER \<or> i = FACES_BOTTOM_BACK_RIGHT_CORNER \<or>
   i = FACES_BOTTOM_BACK_LEFT_CORNER \<or> i = FACES_BOTTOM_FRONT_LEFT_CORNER"
  using assms by (simp only: FACES_defs atLeastAtMost_iff) arith

lemma region_cases:
  assumes "i \<in> {1..26}"
  shows "i \<in> set FACES_values"
proof -
  from assms have "i \<in> {1..6} \<or> i \<in> {7..18} \<or> i \<in> {19..26}"
    by (simp only: atLeastAtMost_iff) arith
  then show ?thesis
  proof (elim disjE)
    assume h: "i \<in> {1..6}"
    show ?thesis using face_cases [OF h] by (auto simp: FACES_values_def)
  next
    assume h: "i \<in> {7..18}"
    show ?thesis using edge_cases [OF h] by (auto simp: FACES_values_def)
  next
    assume h: "i \<in> {19..26}"
    show ?thesis using corner_cases [OF h] by (auto simp: FACES_values_def)
  qed
qed

lemma dom_getEdgeConfigs: "dom (getEdgeConfigs system d) = {7..18}"
  by (auto simp: getEdgeConfigs_def FACES_defs Let_def) arith

lemma dom_getCornerConfigs: "dom (getCornerConfigs system d) = {19..26}"
  by (auto simp: getCornerConfigs_def FACES_defs Let_def)

lemma dom_getZUpFaceConfigs: "dom (getZUpFaceConfigs d) = {1..26}"
  unfolding getZUpFaceConfigs_def dom_map_add dom_getEdgeConfigs dom_getCornerConfigs
  by (auto simp: FACES_defs)

lemma dom_getYUpFaceConfigs: "dom (getYUpFaceConfigs d) = {1..26}"
  unfolding getYUpFaceConfigs_def dom_map_add dom_getEdgeConfigs dom_getCornerConfigs
  by (auto simp: FACES_defs)

lemma set_FACES_values: "set FACES_values = {1..26}"
  by (auto simp: FACES_values_def FACES_defs) arith

lemma distinct_FACES_values: "distinct FACES_values"
  by (simp add: FACES_values_def FACES_defs)

subsection \<open>Norms\<close>

lemma sqrt_two_squares: "0 \<le> e \<Longrightarrow> sqrt (e * e + e * e) = e * sqrt 2"
proof -
  assume "0 \<le> e"
  have "sqrt (e * e + e * e) = sqrt (2 * e\<^sup>2)" by (simp add: power2_eq_square)
  also have "\<dots> = sqrt 2 * \<bar>e\<bar>" by (simp add: real_sqrt_mult)
  finally show ?thesis using \<open>0 \<le> e\<close> by simp
qed

lemma sqrt_three_squares: "0 \<le> e \<Longrightarrow> sqrt (e * e + e * e + e * e) = e * sqrt 3"
proof -
  assume "0 \<le> e"
  have "sqrt (e * e + e * e + e * e) = sqrt (3 * e\<^sup>2)" by (simp add: power2_eq_square)
  also have "\<dots> = sqrt 3 * \<bar>e\<bar>" by (simp add: real_sqrt_mult)
  finally show ?thesis using \<open>0 \<le> e\<close> by simp
qed

lemma face_position_length:
  assumes d: "0 < d" and cs: "cs \<in> {''Y-up'', ''Z-up''}" and i: "i \<in> {1..6}"
  shows "position_length (getFaceConfigs (Some cs) (Some d)) i = Some d"
  using face_cases [OF i] d cs
  by (elim disjE insertE emptyE; simp add: table_defs position_length_def vec_length_def)

lemma edge_position_length:
  assumes d: "0 < d" and cs: "cs \<in> {''Y-up'', ''Z-up''}" and i: "i \<in> {7..18}"
  shows "position_length (getFaceConfigs (Some cs) (Some d)) i = Some (d * 0.707 * sqrt 2)"
proof -
  have "sqrt (d * 0.707 * (d * 0.707) + d * 0.707 * (d * 0.707)) = d * 0.707 * sqrt 2"
    using d by (intro sqrt_two_squares) simp
  with edge_cases [OF i] cs show ?thesis
    by (elim disjE insertE emptyE; simp add: table_defs position_length_def vec_length_def)
qed

lemma corner_position_length:
  assumes d: "0 < d" and cs: "cs \<in> {''Y-up'', ''Z-up''}" and i: "i \<in> {19..26}"
  shows "position_length (getFaceConfigs (Some cs) (Some d)) i = Some (d * 0.577 * sqrt 3)"
proof -
  have "sqrt (d * 0.577 * (d * 0.577) + d * 0.577 * (d * 0.577) + d * 0.577 * (d * 0.577))
        = d * 0.577 * sqrt 3"
    using d by (intro sqrt_three_squares) simp
  with corner_cases [OF i] cs show ?thesis
    by (elim disjE insertE emptyE; simp add: table_defs position_length_def vec_length_def)
qed

subsection \<open>The look-at points of the edges\<close>

lemma zup_top_bottom_lookAt:
  "i \<in> top_bottom_edges \<Longrightarrow>
   \<exists>cfg. getFaceConfigs (Some ''Z-up'') (Some d) i = Some cfg \<and> is_cardinal (lookAt cfg)"
  unfolding top_bottom_edges_def
  by (elim insertE emptyE; simp add: table_defs is_cardinal_def)

lemma zup_side_lookAt:
  "i \<in> side_edges \<Longrightarrow>
   map_option lookAt (getFaceConfigs (Some ''Z-up'') (Some d) i) = Some (vec 0 0 0)"
  unfolding side_edges_def
  by (elim insertE emptyE; simp add: table_defs)

lemma yup_edge_lookAt:
  "i \<in> top_bottom_edges \<union> side_edges \<Longrightarrow>
   map_option lookAt (getFaceConfigs (Some ''Y-up'') (Some d) i) = Some (vec 0 0 0)"
  unfolding side_edges_def top_bottom_edges_def
  by (elim UnE insertE emptyE; simp add: table_defs)

subsection \<open>Degenerate and non-degenerate views\<close>

text \<open>
  Every face of the Y-up table, and the TOP, FRONT, BACK and BOTTOM faces of the Z-up
  table, have \<open>position = - d \<cdot> lookAt\<close>: the camera looks back towards the origin. The
  RIGHT and LEFT faces of the Z-up table have \<open>position = d \<cdot> lookAt\<close> instead.
\<close>

lemma yup_face_lookAt_opposes_position:
  assumes "i \<in> {1..6}"
  shows "\<exists>cfg. getFaceConfigs (Some ''Y-up'') (Some d) i = Some cfg \<and>
           position cfg = vec_scale (- d) (lookAt cfg)"
  using face_cases [OF assms]
  by (elim disjE; simp add: table_defs vec_scale_def vec_eq_iff)

lemma zup_face_lookAt_opposes_position:
  assumes "i \<in> {FACES_TOP, FACES_FRONT, FACES_BACK, FACES_BOTTOM}"
  shows "\<exists>cfg. getFaceConfigs (Some ''Z-up'') (Some d) i = Some cfg \<and>
           position cfg = vec_scale (- d) (lookAt cfg)"
  using assms
  by (elim insertE emptyE; simp add: table_defs vec_scale_def vec_eq_iff)

lemma zup_right_left_lookAt_along_position:
  assumes "i \<in> {FACES_RIGHT, FACES_LEFT}"
  shows "\<exists>cfg. getFaceConfigs (Some ''Z-up'') (Some d) i = Some cfg \<and>
           position cfg = vec_scale d (lookAt cfg)"
  using assms
  by (elim insertE emptyE; simp add: table_defs vec_scale_def vec_eq_iff)

text \<open>The Y-up table keeps the invariant at every positive distance.\<close>

lemma yup_nondegenerate:
  assumes d: "0 < d" and i: "i \<in> {1..26}"
  shows "\<exists>cfg. getFaceConfigs (Some ''Y-up'') (Some d) i = Some cfg \<and> nondegenerate cfg"
  using region_cases [OF i] d unfolding FACES_values_def
  by (simp only: set_simps, elim insertE emptyE; simp add: table_defs geom_defs)

text \<open>
  The four Z-up edges next to the RIGHT and LEFT faces take over their \<open>lookAt\<close>. When
  the offset \<open>e = d \<cdot> 0.707\<close> of \<^verbatim>\<open>getEdgeConfigs\<close> is 1, their gaze is \<open>(0, 0, -1)\<close> or
  \<open>(0, 0, 1)\<close>, along \<open>up\<close>. Over the reals the offset is 1 at \<open>d = 1000/707\<close>; the
  product of doubles in the source is 1 at \<open>d = 1.4144271570014146\<close>.
\<close>

lemma zup_degenerate:
  assumes e: "d * 0.707 = 1"
    and i: "i \<in> {FACES_TOP_RIGHT_EDGE, FACES_TOP_LEFT_EDGE, FACES_BOTTOM_RIGHT_EDGE,
                 FACES_BOTTOM_LEFT_EDGE}"
  shows "\<exists>cfg. getFaceConfigs (Some ''Z-up'') (Some d) i = Some cfg \<and> \<not> nondegenerate cfg"
  using i e
  by (elim insertE emptyE; simp add: table_defs geom_defs)

subsection \<open>Quaternions\<close>

lemma setFromAxisAngle_X_quarter: "setFromAxisAngle (vec 1 0 0) (pi / 2) = rotX90"
  by (simp add: setFromAxisAngle_def rotX90_def Let_def sin_45 cos_45)

lemma rotX90_unit: "is_unit rotX90"
  by (simp add: is_unit_def rotX90_def)

lemma rotX90_turns:
  "applyQuaternion (vec 1 0 0) rotX90 = vec 1 0 0"
  "applyQuaternion (vec 0 1 0) rotX90 = vec 0 0 1"
  "applyQuaternion (vec 0 0 1) rotX90 = vec 0 (- 1) 0"
  by (simp_all add: applyQuaternion_def rotX90_def multiplyQuaternions_def invert_def Let_def
      vec_eq_iff)

lemma multiply_identity_right: "multiplyQuaternions q new_Quaternion = q"
  by (subst (2) quat_surj [of q]) (simp add: multiplyQuaternions_def new_Quaternion_def Let_def)

lemma multiply_identity_left: "multiplyQuaternions new_Quaternion q = q"
  by (subst (2) quat_surj [of q]) (simp add: multiplyQuaternions_def new_Quaternion_def Let_def)

lemma invert_identity: "invert new_Quaternion = new_Quaternion"
  by (simp add: invert_def new_Quaternion_def quat_eq_iff)

lemma multiply_invert_right: "is_unit q \<Longrightarrow> multiplyQuaternions q (invert q) = new_Quaternion"
  by (simp add: multiplyQuaternions_def new_Quaternion_def Let_def invert_def is_unit_def
      quat_eq_iff algebra_simps)

lemma multiply_invert_left: "is_unit q \<Longrightarrow> multiplyQuaternions (invert q) q = new_Quaternion"
  by (simp add: multiplyQuaternions_def new_Quaternion_def Let_def invert_def is_unit_def
      quat_eq_iff algebra_simps)

lemma quaternion_setQuaternion:
  "quaternion (setQuaternion this q) =
    (if mesh_options_coordinateSystem this = ''Z-up''
     then multiplyQuaternions (invert q) rotX90 else invert q)"
  by (simp add: setQuaternion_def setRotationFromQuaternion_def Let_def
      setFromAxisAngle_X_quarter)

lemma getYUp_neq_getZUp: "getYUpFaceConfigs d \<noteq> getZUpFaceConfigs d'"
proof
  assume "getYUpFaceConfigs d = getZUpFaceConfigs d'"
  then have "getYUpFaceConfigs d FACES_TOP = getZUpFaceConfigs d' FACES_TOP" by simp
  then show False by (simp add: table_defs vec_eq_iff)
qed

section \<open>The synchronizer\<close>

text \<open>
  C1. For every unit quaternion \<open>q\<close> given as the camera orientation, \<^verbatim>\<open>setQuaternion\<close>
  leaves in the mesh the product of \<open>invert q\<close> (which for a unit \<open>q\<close> is its inverse) with a
  fixed correction, in this order: the identity when the mesh is Y-up, the rotation by
  +90 degrees about the X axis when it is Z-up. In particular, for the identity
  orientation the result is the identity under Y-up and the correction itself under Z-up.
\<close>

theorem setQuaternion_inverts_then_corrects:
  assumes "is_unit q"
  shows "multiplyQuaternions q (invert q) = new_Quaternion \<and>
    (mesh_options_coordinateSystem this = ''Y-up'' \<longrightarrow>
       quaternion (setQuaternion this q) = multiplyQuaternions (invert q) new_Quaternion \<and>
       quaternion (setQuaternion this new_Quaternion) = new_Quaternion) \<and>
    (mesh_options_coordinateSystem this = ''Z-up'' \<longrightarrow>
       quaternion (setQuaternion this q) = multiplyQuaternions (invert q) rotX90 \<and>
       quaternion (setQuaternion this new_Quaternion) = rotX90)"
proof (intro conjI impI)
  show "multiplyQuaternions q (invert q) = new_Quaternion"
    using assms by (rule multiply_invert_right)
next
  assume "mesh_options_coordinateSystem this = ''Y-up''"
  then show "quaternion (setQuaternion this q) = multiplyQuaternions (invert q) new_Quaternion"
    by (simp add: quaternion_setQuaternion multiply_identity_right)
next
  assume "mesh_options_coordinateSystem this = ''Y-up''"
  then show "quaternion (setQuaternion this new_Quaternion) = new_Quaternion"
    by (simp add: quaternion_setQuaternion invert_identity)
next
  assume "mesh_options_coordinateSystem this = ''Z-up''"
  then show "quaternion (setQuaternion this q) = multiplyQuaternions (invert q) rotX90"
    by (simp add: quaternion_setQuaternion)
next
  assume "mesh_options_coordinateSystem this = ''Z-up''"
  then show "quaternion (setQuaternion this new_Quaternion) = rotX90"
    by (simp add: quaternion_setQuaternion invert_identity multiply_identity_left)
qed

text \<open>An instance of C1: the camera orientation \<open>(1/2, 1/2, 1/2, 1/2)\<close>, on a Y-up and on a
  Z-up mesh.\<close>

theorem setQuaternion_inverts_then_corrects_witness:
  "is_unit (quat (1/2) (1/2) (1/2) (1/2)) \<and>
   quaternion (setQuaternion \<lparr>mesh_options_coordinateSystem = ''Y-up'', quaternion = new_Quaternion\<rparr>
     (quat (1/2) (1/2) (1/2) (1/2))) = quat (- 1/2) (- 1/2) (- 1/2) (1/2) \<and>
   quaternion (setQuaternion \<lparr>mesh_options_coordinateSystem = ''Z-up'', quaternion = new_Quaternion\<rparr>
     (quat (1/2) (1/2) (1/2) (1/2))) = quat 0 (- (sqrt 2 / 2)) 0 (sqrt 2 / 2) \<and>
   quaternion (setQuaternion \<lparr>mesh_options_coordinateSystem = ''Z-up'', quaternion = new_Quaternion\<rparr>
     new_Quaternion) = rotX90"
proof -
  have u: "is_unit (quat (1/2) (1/2) (1/2) (1/2))"
    by (simp add: is_unit_def)
  from u
    setQuaternion_inverts_then_corrects [OF u,
      of "\<lparr>mesh_options_coordinateSystem = ''Y-up'', quaternion = new_Quaternion\<rparr>"]
    setQuaternion_inverts_then_corrects [OF u,
      of "\<lparr>mesh_options_coordinateSystem = ''Z-up'', quaternion = new_Quaternion\<rparr>"]
  show ?thesis
    by (simp add: multiplyQuaternions_def invert_def rotX90_def new_Quaternion_def Let_def
        quat_eq_iff)
qed

text \<open>
  C9. For every unit quaternion \<open>q\<close>, on a Y-up mesh the rotation that \<^verbatim>\<open>setQuaternion\<close>
  computes for \<open>q\<close>, composed with \<open>q\<close> itself on either side, is the identity rotation.
\<close>

theorem yup_setQuaternion_cancels:
  assumes "is_unit q" and "mesh_options_coordinateSystem this = ''Y-up''"
  shows "multiplyQuaternions (quaternion (setQuaternion this q)) q = new_Quaternion \<and>
         multiplyQuaternions q (quaternion (setQuaternion this q)) = new_Quaternion"
  using assms
  by (simp add: quaternion_setQuaternion multiply_invert_left multiply_invert_right)

text \<open>An instance of C9: the camera orientation \<open>(3/5, 0, 4/5, 0)\<close>.\<close>

theorem yup_setQuaternion_cancels_witness:
  "is_unit (quat (3/5) 0 (4/5) 0) \<and>
   mesh_options_coordinateSystem
     \<lparr>mesh_options_coordinateSystem = ''Y-up'', quaternion = new_Quaternion\<rparr> = ''Y-up'' \<and>
   multiplyQuaternions
     (quaternion (setQuaternion
        \<lparr>mesh_options_coordinateSystem = ''Y-up'', quaternion = new_Quaternion\<rparr>
        (quat (3/5) 0 (4/5) 0)))
     (quat (3/5) 0 (4/5) 0) = quat 0 0 0 1"
proof -
  have u: "is_unit (quat (3/5) 0 (4/5) 0)"
    by (simp add: is_unit_def)
  have c: "mesh_options_coordinateSystem
     \<lparr>mesh_options_coordinateSystem = ''Y-up'', quaternion = new_Quaternion\<rparr> = ''Y-up''"
    by simp
  from u c yup_setQuaternion_cancels [OF u c] show ?thesis
    by (simp add: new_Quaternion_def)
qed

section \<open>The table of configurations\<close>

text \<open>
  C3. Whatever the two arguments, the keys of the table that \<^verbatim>\<open>getFaceConfigs\<close> returns
  are exactly the 26 values of \<^verbatim>\<open>FACES\<close>, the numbers 1 to 26: none is missing and there
  is no other key. Every entry is a \<open>FaceConfig\<close>, which has all of \<open>up\<close>, \<open>lookAt\<close> and
  \<open>position\<close>.
\<close>

theorem getFaceConfigs_keys:
  "dom (getFaceConfigs cs d) = set FACES_values \<and> set FACES_values = {1..26} \<and>
   card (dom (getFaceConfigs cs d)) = 26"
  by (simp add: getFaceConfigs_def Let_def dom_getZUpFaceConfigs dom_getYUpFaceConfigs
      set_FACES_values)

text \<open>
  C7. Under the Z-up convention with distance 100, the configuration of the FRONT region
  is up = (0,0,1), lookAt = (0,1,0), position = (0,-100,0).
\<close>

theorem zup_front_at_100:
  "getFaceConfigs (Some ''Z-up'') (Some 100) FACES_FRONT =
     Some \<lparr>up = vec 0 0 1, lookAt = vec 0 1 0, position = vec 0 (- 100) 0\<rparr>"
  by (simp add: table_defs)

text \<open>
  C8. Under the Y-up convention with distance 100, the configuration of the TOP region
  is up = (0,0,-1), lookAt = (0,-1,0), position = (0,100,0).
\<close>

theorem yup_top_at_100:
  "getFaceConfigs (Some ''Y-up'') (Some 100) FACES_TOP =
     Some \<lparr>up = vec 0 0 (- 1), lookAt = vec 0 (- 1) 0, position = vec 0 100 0\<rparr>"
  by (simp add: table_defs)

text \<open>
  C10. A call of \<^verbatim>\<open>getFaceConfigs\<close> without arguments returns the Z-up table for distance
  100, and an omitted coordinate system alone selects the Z-up table. A string other than
  \<^verbatim>\<open>'Z-up'\<close> selects the Y-up table instead, which is a different table. The constructor of
  \<^verbatim>\<open>ViewCube\<close>, given a container and neither a coordinate system nor a camera distance,
  stores \<^verbatim>\<open>'Z-up'\<close> and 100 and builds the Z-up table for distance 100.
\<close>

theorem getFaceConfigs_defaults:
  "getFaceConfigs None None = getZUpFaceConfigs 100 \<and>
   getFaceConfigs None (Some d) = getZUpFaceConfigs d \<and>
   (s \<noteq> ''Z-up'' \<longrightarrow>
      getFaceConfigs (Some s) None = getYUpFaceConfigs 100 \<and>
      getFaceConfigs (Some s) None \<noteq> getFaceConfigs None None) \<and>
   ViewCube_constructor \<lparr>container = Some c, coordinateSystem = None, cameraDistance = None\<rparr> =
     Inr \<lparr>this_options =
            \<lparr>options_container = Some c, options_coordinateSystem = ''Z-up'',
             options_cameraDistance = 100\<rparr>,
          this_faceConfigs = getZUpFaceConfigs 100\<rparr>"
  by (simp add: getFaceConfigs_def Let_def getYUp_neq_getZUp ViewCube_constructor_def
      ViewCube_init_def js_or_string_def js_or_number_def)

text \<open>An instance of C10: the unrecognised string \<^verbatim>\<open>'X-up'\<close>.\<close>

theorem getFaceConfigs_defaults_witness:
  "''X-up'' \<noteq> ''Z-up'' \<and>
   getFaceConfigs (Some ''X-up'') None = getYUpFaceConfigs 100 \<and>
   getFaceConfigs (Some ''X-up'') None \<noteq> getFaceConfigs None None \<and>
   getFaceConfigs None None FACES_TOP =
     Some \<lparr>up = vec 0 1 0, lookAt = vec 0 0 (- 1), position = vec 0 0 100\<rparr>"
proof -
  have "getFaceConfigs None None FACES_TOP =
     Some \<lparr>up = vec 0 1 0, lookAt = vec 0 0 (- 1), position = vec 0 0 100\<rparr>"
    by (simp add: table_defs)
  moreover have "''X-up'' \<noteq> ''Z-up''"
    by simp
  ultimately show ?thesis
    using getFaceConfigs_defaults [of 100 "''X-up''" 0] by blast
qed

text \<open>
  C2, as the source has it. For every positive distance \<open>d\<close> and both conventions, the
  norm of the position is \<open>d\<close> for the 6 faces, \<open>d \<cdot> 0.707 \<cdot> \<surd>2\<close> for the 12 edges and
  \<open>d \<cdot> 0.577 \<cdot> \<surd>3\<close> for the 8 corners: the factors 0.707 and 0.577 scale each non-zero
  coordinate, not the norm, so that every region keeps the camera at about the distance
  \<open>d\<close> from the origin.
\<close>

theorem position_length_by_kind:
  assumes "0 < d" and "cs \<in> {''Y-up'', ''Z-up''}"
  shows
    "(i \<in> {1..6} \<longrightarrow>
        position_length (getFaceConfigs (Some cs) (Some d)) i = Some d) \<and>
     (i \<in> {7..18} \<longrightarrow>
        position_length (getFaceConfigs (Some cs) (Some d)) i = Some (d * 0.707 * sqrt 2)) \<and>
     (i \<in> {19..26} \<longrightarrow>
        position_length (getFaceConfigs (Some cs) (Some d)) i = Some (d * 0.577 * sqrt 3))"
  using assms
  by (blast intro: face_position_length edge_position_length corner_position_length)

text \<open>An instance: distance 100 under Z-up, at a face, an edge and a corner.\<close>

theorem position_length_by_kind_witness:
  "(0::real) < 100 \<and> ''Z-up'' \<in> {''Y-up'', ''Z-up''} \<and>
   FACES_FRONT \<in> {1..6} \<and> FACES_TOP_FRONT_EDGE \<in> {7..18} \<and>
   FACES_TOP_FRONT_RIGHT_CORNER \<in> {19..26} \<and>
   position_length (getFaceConfigs (Some ''Z-up'') (Some 100)) FACES_FRONT = Some 100 \<and>
   position_length (getFaceConfigs (Some ''Z-up'') (Some 100)) FACES_TOP_FRONT_EDGE =
     Some (100 * 0.707 * sqrt 2) \<and>
   position_length (getFaceConfigs (Some ''Z-up'') (Some 100)) FACES_TOP_FRONT_RIGHT_CORNER =
     Some (100 * 0.577 * sqrt 3)"
proof -
  have d: "(0::real) < 100" and cs: "''Z-up'' \<in> {''Y-up'', ''Z-up''}"
    by simp_all
  have k: "FACES_FRONT \<in> {1..6}" "FACES_TOP_FRONT_EDGE \<in> {7..18}"
      "FACES_TOP_FRONT_RIGHT_CORNER \<in> {19..26}"
    by (simp_all add: FACES_defs)
  from d cs k
    position_length_by_kind [OF d cs, of FACES_FRONT]
    position_length_by_kind [OF d cs, of FACES_TOP_FRONT_EDGE]
    position_length_by_kind [OF d cs, of FACES_TOP_FRONT_RIGHT_CORNER]
  show ?thesis by blast
qed

text \<open>
  C2 as stated fails. At distance 100 under Z-up the position of the TOP_FRONT edge is
  \<open>(0, -70.7, 70.7)\<close>, of norm \<open>70.7 \<cdot> \<surd>2\<close>, about 99.98; this is not within a relative
  tolerance of \<open>10\<^sup>-\<^sup>9\<close> of \<open>100 \<cdot> \<surd>2/2\<close>, about 70.71: the two differ by more than 29.
\<close>

theorem edge_norm_counterexample:
  "getFaceConfigs (Some ''Z-up'') (Some 100) FACES_TOP_FRONT_EDGE =
     Some \<lparr>up = vec 0 0 1, lookAt = vec 0 1 0, position = vec 0 (- (707 / 10)) (707 / 10)\<rparr> \<and>
   position_length (getFaceConfigs (Some ''Z-up'') (Some 100)) FACES_TOP_FRONT_EDGE =
     Some (707 / 10 * sqrt 2) \<and>
   \<not> within_rel_tol (707 / 10 * sqrt 2) (100 * (sqrt 2 / 2)) \<and>
   29 < 707 / 10 * sqrt 2 - 100 * (sqrt 2 / 2)"
proof (intro conjI)
  show "getFaceConfigs (Some ''Z-up'') (Some 100) FACES_TOP_FRONT_EDGE =
     Some \<lparr>up = vec 0 0 1, lookAt = vec 0 1 0, position = vec 0 (- (707 / 10)) (707 / 10)\<rparr>"
    by (simp add: table_defs)
  have "FACES_TOP_FRONT_EDGE \<in> {7..18}"
    by (simp add: FACES_defs)
  then have "position_length (getFaceConfigs (Some ''Z-up'') (Some 100)) FACES_TOP_FRONT_EDGE =
     Some (100 * 0.707 * sqrt 2)"
    by (intro edge_position_length) simp_all
  then show "position_length (getFaceConfigs (Some ''Z-up'') (Some 100)) FACES_TOP_FRONT_EDGE =
     Some (707 / 10 * sqrt 2)"
    by simp
  have "707 / 10 * sqrt 2 - 100 * (sqrt 2 / 2) = 207 / 10 * sqrt 2"
    by simp
  moreover have "0 < sqrt 2"
    by simp
  ultimately show "\<not> within_rel_tol (707 / 10 * sqrt 2) (100 * (sqrt 2 / 2))"
    by (simp add: within_rel_tol_def)
  have "(141 / 100)\<^sup>2 < (2::real)"
    by (simp add: power2_eq_square)
  then have "141 / 100 < sqrt 2"
    by (rule real_less_rsqrt)
  then show "29 < 707 / 10 * sqrt 2 - 100 * (sqrt 2 / 2)"
    by simp
qed

text \<open>
  C5, as the source has it. For every distance: under Z-up the \<open>lookAt\<close> of each of the
  8 top and bottom edges is a cardinal direction and that of each of the 4 side edges is
  the origin; under Y-up the \<open>lookAt\<close> of all 12 edges is the origin.
\<close>

theorem edge_lookAt_by_convention:
  "(i \<in> top_bottom_edges \<longrightarrow>
      (\<exists>cfg. getFaceConfigs (Some ''Z-up'') (Some d) i = Some cfg \<and> is_cardinal (lookAt cfg))) \<and>
   (i \<in> side_edges \<longrightarrow>
      map_option lookAt (getFaceConfigs (Some ''Z-up'') (Some d) i) = Some (vec 0 0 0)) \<and>
   (i \<in> top_bottom_edges \<union> side_edges \<longrightarrow>
      map_option lookAt (getFaceConfigs (Some ''Y-up'') (Some d) i) = Some (vec 0 0 0))"
  using zup_top_bottom_lookAt [of i d] zup_side_lookAt [of i d] yup_edge_lookAt [of i d]
  by blast

text \<open>An instance: distance 100, the TOP_FRONT edge and the FRONT_RIGHT edge.\<close>

theorem edge_lookAt_by_convention_witness:
  "FACES_TOP_FRONT_EDGE \<in> top_bottom_edges \<and> FACES_FRONT_RIGHT_EDGE \<in> side_edges \<and>
   (\<exists>cfg. getFaceConfigs (Some ''Z-up'') (Some 100) FACES_TOP_FRONT_EDGE = Some cfg \<and>
      is_cardinal (lookAt cfg)) \<and>
   map_option lookAt (getFaceConfigs (Some ''Z-up'') (Some 100) FACES_FRONT_RIGHT_EDGE) =
     Some (vec 0 0 0) \<and>
   map_option lookAt (getFaceConfigs (Some ''Y-up'') (Some 100) FACES_TOP_FRONT_EDGE) =
     Some (vec 0 0 0)"
proof -
  have k: "FACES_TOP_FRONT_EDGE \<in> top_bottom_edges" "FACES_FRONT_RIGHT_EDGE \<in> side_edges"
    by (simp_all add: top_bottom_edges_def side_edges_def)
  from k
    edge_lookAt_by_convention [of FACES_TOP_FRONT_EDGE 100]
    edge_lookAt_by_convention [of FACES_FRONT_RIGHT_EDGE 100]
  show ?thesis by blast
qed

text \<open>
  C5 as stated fails under Y-up: the TOP_FRONT edge is one of the top edges, and its
  \<open>lookAt\<close> at distance 100 is the origin, which is not a cardinal direction.
\<close>

theorem yup_top_edge_lookAt_counterexample:
  "FACES_TOP_FRONT_EDGE \<in> top_bottom_edges \<and>
   getFaceConfigs (Some ''Y-up'') (Some 100) FACES_TOP_FRONT_EDGE =
     Some \<lparr>up = vec 0 1 0, lookAt = vec 0 0 0, position = vec 0 (707 / 10) (707 / 10)\<rparr> \<and>
   \<not> is_cardinal (vec 0 0 0)"
  by (simp add: table_defs top_bottom_edges_def is_cardinal_def vec_eq_iff)

text \<open>
  C6. For both conventions, every positive distance and every key from 1 to 26, the
  position should not be the zero vector and \<open>up\<close> should not be parallel to
  \<open>lookAt - position\<close>. The source breaks this under Z-up at distance 1: the RIGHT face has
  \<open>lookAt = position = (1, 0, 0)\<close> and the LEFT face \<open>lookAt = position = (-1, 0, 0)\<close>, so
  the gaze \<open>lookAt - position\<close> is the zero vector, which is \<open>0 \<cdot> up\<close>, and neither
  configuration is non-degenerate.
\<close>

theorem zup_right_left_at_distance_1:
  "getFaceConfigs (Some ''Z-up'') (Some 1) FACES_RIGHT =
     Some \<lparr>up = vec 0 0 1, lookAt = vec 1 0 0, position = vec 1 0 0\<rparr> \<and>
   getFaceConfigs (Some ''Z-up'') (Some 1) FACES_LEFT =
     Some \<lparr>up = vec 0 0 1, lookAt = vec (- 1) 0 0, position = vec (- 1) 0 0\<rparr> \<and>
   vec_sub (vec 1 0 0) (vec 1 0 0) = vec_scale 0 (vec 0 0 1) \<and>
   vec_sub (vec (- 1) 0 0) (vec (- 1) 0 0) = vec_scale 0 (vec 0 0 1) \<and>
   parallel (vec 0 0 1) (vec_sub (vec 1 0 0) (vec 1 0 0)) \<and>
   parallel (vec 0 0 1) (vec_sub (vec (- 1) 0 0) (vec (- 1) 0 0)) \<and>
   \<not> nondegenerate \<lparr>up = vec 0 0 1, lookAt = vec 1 0 0, position = vec 1 0 0\<rparr> \<and>
   \<not> nondegenerate \<lparr>up = vec 0 0 1, lookAt = vec (- 1) 0 0, position = vec (- 1) 0 0\<rparr>"
  by (simp add: table_defs geom_defs vec_scale_def)

section \<open>Unrecognised coordinate systems\<close>

text \<open>
  C4, as the source has it. For every coordinate-system string outside \<^verbatim>\<open>'Y-up'\<close> and
  \<^verbatim>\<open>'Z-up'\<close> and any distance, the call of \<^verbatim>\<open>getFaceConfigs\<close> completes normally and
  returns the Y-up table for that distance (for 100 when the distance is omitted).
\<close>

theorem unrecognised_system_gets_yup:
  assumes "cs \<notin> {''Y-up'', ''Z-up''}"
  shows "call_getFaceConfigs (Some cs) d =
           Inr (getYUpFaceConfigs (case d of None \<Rightarrow> 100 | Some v \<Rightarrow> v))"
  using assms by (simp add: call_getFaceConfigs_def getFaceConfigs_def Let_def)

text \<open>An instance: the string \<^verbatim>\<open>'X-up'\<close> with distance 50.\<close>

theorem unrecognised_system_gets_yup_witness:
  "''X-up'' \<notin> {''Y-up'', ''Z-up''} \<and>
   call_getFaceConfigs (Some ''X-up'') (Some 50) = Inr (getYUpFaceConfigs 50)"
proof -
  have h: "''X-up'' \<notin> {''Y-up'', ''Z-up''}" by simp
  from h unrecognised_system_gets_yup [OF h, of "Some 50"] show ?thesis by simp
qed

text \<open>
  C4 as stated fails: with the string \<^verbatim>\<open>'X-up'\<close> and distance 100 the call does not fail,
  it returns the Y-up table; and the constructor of \<^verbatim>\<open>ViewCube\<close>, given a container and
  that string, completes with the Y-up table as well.
\<close>

theorem unrecognised_system_counterexample:
  "''X-up'' \<notin> {''Y-up'', ''Z-up''} \<and>
   \<not> isl (call_getFaceConfigs (Some ''X-up'') (Some 100)) \<and>
   call_getFaceConfigs (Some ''X-up'') (Some 100) = Inr (getYUpFaceConfigs 100) \<and>
   ViewCube_constructor
     \<lparr>container = Some 0, coordinateSystem = Some ''X-up'', cameraDistance = Some 100\<rparr> =
     Inr \<lparr>this_options =
            \<lparr>options_container = Some 0, options_coordinateSystem = ''X-up'',
             options_cameraDistance = 100\<rparr>,
          this_faceConfigs = getYUpFaceConfigs 100\<rparr>"
  by (simp add: call_getFaceConfigs_def getFaceConfigs_def Let_def ViewCube_constructor_def
      ViewCube_init_def js_or_string_def js_or_number_def)

end
